theory Spec2Isabelle
  imports Complex_Main
begin

section \<open>JavaScript values\<close>

text \<open>
  The client (static/js/main.js, two revisions in one file, and an older revision kept as
  unnamed/part_002) is a class \<open>ChatApp\<close> whose methods mutate the page and the field
  \<open>currentAnswer\<close>. Event payloads are JSON texts; a parsed payload is a \<open>json\<close> value and
  \<open>undefined\<close> (a missing property) is \<open>None\<close>. Numbers are modelled as rationals, strings
  as lists of code units.
\<close>

datatype json =
    JNull
  | JBool bool
  | JNum rat
  | JStr string
  | JArr "json list"
  | JObj "(string \<times> json) list"

type_synonym jsv = "json option"

datatype exn = TypeError | SyntaxError | ReferenceError

text \<open>Truthiness, as \<open>if (x)\<close>, \<open>!x\<close> and \<open>x || y\<close> test it.\<close>

fun truthy :: "jsv \<Rightarrow> bool" where
  "truthy None = False"
| "truthy (Some JNull) = False"
| "truthy (Some (JBool b)) = b"
| "truthy (Some (JNum n)) = (n \<noteq> 0)"
| "truthy (Some (JStr s)) = (s \<noteq> [])"
| "truthy (Some (JArr xs)) = True"
| "truthy (Some (JObj kv)) = True"

text \<open>\<open>typeof v === 'object'\<close>: true of objects, arrays and null.\<close>

fun typeof_object :: "json \<Rightarrow> bool" where
  "typeof_object JNull = True"
| "typeof_object (JArr xs) = True"
| "typeof_object (JObj kv) = True"
| "typeof_object v = False"

text \<open>
  Property read \<open>v.k\<close> for the property names the client reads (none of them is
  \<open>length\<close> or an index): it throws on null, finds the member of an object, and is
  undefined on every other value. A parsed object lists each key once.
\<close>

fun getprop :: "json \<Rightarrow> string \<Rightarrow> exn + jsv" where
  "getprop JNull k = Inl TypeError"
| "getprop (JObj kv) k = Inr (map_of kv k)"
| "getprop v k = Inr None"

text \<open>The same read where the value is known not to be null.\<close>

fun field :: "json \<Rightarrow> string \<Rightarrow> jsv" where
  "field (JObj kv) k = map_of kv k"
| "field v k = None"

text \<open>
  What the platform provides: \<open>JSON.parse\<close> (\<open>None\<close> when it throws a SyntaxError), the
  conversion of a value to a string that \<open>+=\<close> and template literals apply, the
  conversion to a number that \<open>*\<close> and \<open>>\<close> apply (\<open>None\<close> for NaN), and the
  resolution of an \<open>href\<close> attribute against the address of the page, which reading
  \<open>a.href\<close> returns.
\<close>

record platform =
  JSON_parse :: "string \<Rightarrow> json option"
  ToString :: "json \<Rightarrow> string"
  ToNumber :: "json \<Rightarrow> rat option"
  resolve_url :: "string \<Rightarrow> string"

section \<open>The page\<close>

text \<open>
  Children of \<open>.answer-content\<close>. A loading indicator carries its text, an answer block
  (\<open>div.ai-message\<close> holding one \<open>div.markdown-content\<close>) the markdown source last
  rendered into it, an error block the values interpolated into it. Markup inside
  interpolated text is not interpreted, and the markdown converter is not modelled.
  The Chinese string literals of the source are written as English glosses.
\<close>

datatype anode =
    UserMessage string
  | Placeholder
  | Loading jsv
  | AiMessage string
  | ErrorDiv json jsv

text \<open>
  Children of \<open>.reference-cards\<close>. A reference card keeps its anchor (\<open>None\<close> when
  the card has no \<open>a\<close> element, else the value interpolated into the \<open>href\<close>
  attribute), the result it was rendered from and the text of its content element
  (\<open>.paper-content\<close>; \<open>.snippet\<close> in the oldest revision). Opacity and fade-in are
  presentation and are left out.
\<close>

datatype cardkind = Generic | Web | Arxiv | Legacy

record card =
  kind :: cardkind
  idx :: nat
  anchor :: "jsv option"
  source :: json
  paper_content :: json

datatype rnode =
    RLoading jsv
  | NoResults string
  | RError jsv jsv
  | RCard card
  | ToolResultCard json json jsv

datatype readyState = CONNECTING | OPEN | CLOSED

datatype request =
    ChatRequest string nat "string list"
  | LegacyRequest string bool

text \<open>
  The value assigned to the width of the progress bar and to its label:
  \<open>Math.round(p * 100)\<close>, an integer or NaN. Whether the style sheet accepts the
  width is outside the model.
\<close>

datatype percent = Percent int | NaN

text \<open>
  One \<open>ChatApp\<close> and what it owns: the page elements it holds, \<open>currentAnswer\<close>, the
  callbacks scheduled with \<open>setTimeout\<close> (delay, kind of card, index, result) and every
  \<open>EventSource\<close> created so far with its \<open>readyState\<close>, in creation order.
  \<open>toolOptions\<close> is \<open>None\<close> until the tool list has been loaded; \<open>searchToggle\<close> is the
  checkbox of the oldest revision.
\<close>

record chatapp =
  messageInput :: string
  answerContent :: "anode list"
  referenceCards :: "rnode list"
  referencesVisible :: bool
  currentAnswer :: string
  progressVisible :: bool
  progressWidth :: percent
  progressText :: percent
  toolOptions :: "(string \<times> bool) list option"
  searchToggle :: bool
  timers :: "(nat \<times> cardkind \<times> nat \<times> json) list"
  sources :: "(readyState \<times> request) list"

datatype outcome = Ok chatapp | Throw exn chatapp

text \<open>The state a call leaves behind, whether it returned or threw.\<close>

fun state_of :: "outcome \<Rightarrow> chatapp" where
  "state_of (Ok a) = a"
| "state_of (Throw e a) = a"

subsection \<open>Queries on the answer pane\<close>

fun is_loading :: "anode \<Rightarrow> bool" where
  "is_loading (Loading t) = True"
| "is_loading n = False"

fun is_placeholder :: "anode \<Rightarrow> bool" where
  "is_placeholder Placeholder = True"
| "is_placeholder n = False"

fun is_ai_message :: "anode \<Rightarrow> bool" where
  "is_ai_message (AiMessage t) = True"
| "is_ai_message n = False"

text \<open>\<open>querySelector('.loading')\<close> finds the first indicator; these act on it.\<close>

fun remove_loading :: "anode list \<Rightarrow> anode list" where
  "remove_loading [] = []"
| "remove_loading (n # ns) = (if is_loading n then ns else n # remove_loading ns)"

fun set_loading :: "jsv \<Rightarrow> anode list \<Rightarrow> anode list" where
  "set_loading t [] = []"
| "set_loading t (n # ns) = (if is_loading n then Loading t # ns else n # set_loading t ns)"

text \<open>\<open>querySelector('.ai-message:last-child')\<close>: the last child, if it is an answer block.\<close>

definition last_is_ai :: "anode list \<Rightarrow> bool" where
  "last_is_ai ns = (ns \<noteq> [] \<and> is_ai_message (last ns))"

subsection \<open>Queries on the reference pane\<close>

fun is_rloading :: "rnode \<Rightarrow> bool" where
  "is_rloading (RLoading t) = True"
| "is_rloading n = False"

fun is_tool_card :: "rnode \<Rightarrow> bool" where
  "is_tool_card (ToolResultCard n r m) = True"
| "is_tool_card n = False"

fun remove_rloading :: "rnode list \<Rightarrow> rnode list" where
  "remove_rloading [] = []"
| "remove_rloading (n # ns) = (if is_rloading n then ns else n # remove_rloading ns)"

fun set_rloading :: "jsv \<Rightarrow> rnode list \<Rightarrow> rnode list" where
  "set_rloading t [] = []"
| "set_rloading t (n # ns) = (if is_rloading n then RLoading t # ns else n # set_rloading t ns)"

section \<open>Methods shared by all revisions\<close>

text \<open>\<open>a || b\<close>\<close>

definition js_or :: "jsv \<Rightarrow> jsv \<Rightarrow> jsv" where
  "js_or a b = (if truthy a then a else b)"

text \<open>\<open>s + v\<close> for a string \<open>s\<close>.\<close>

fun js_concat :: "platform \<Rightarrow> string \<Rightarrow> json \<Rightarrow> string" where
  "js_concat P s (JStr t) = s @ t"
| "js_concat P s v = s @ ToString P v"

text \<open>The number a value stands for in arithmetic and comparison; undefined is NaN.\<close>

fun js_number :: "platform \<Rightarrow> jsv \<Rightarrow> rat option" where
  "js_number P None = None"
| "js_number P (Some (JNum n)) = Some n"
| "js_number P (Some v) = ToNumber P v"

text \<open>\<open>x > m\<close> for a number \<open>m\<close>; false when \<open>x\<close> is NaN.\<close>

definition js_gt :: "platform \<Rightarrow> jsv \<Rightarrow> nat \<Rightarrow> bool" where
  "js_gt P x m = (case js_number P x of None \<Rightarrow> False | Some n \<Rightarrow> n > of_nat m)"

text \<open>
  \<open>truncateContent(content, maxLength = 300)\<close>, main.js lines 16-19. A value that is
  neither a string nor an array has no \<open>slice\<close>: if its \<open>length\<close> member exceeds the
  bound, the call throws.
\<close>

fun truncateContent :: "platform \<Rightarrow> jsv \<Rightarrow> nat \<Rightarrow> exn + json" where
  "truncateContent P c maxLength =
     (if \<not> truthy c then Inr (JStr [])
      else (case c of
              Some (JStr s) \<Rightarrow>
                Inr (if length s > maxLength then JStr (take maxLength s @ ''...'') else JStr s)
            | Some (JArr xs) \<Rightarrow>
                Inr (if length xs > maxLength
                     then JStr (ToString P (JArr (take maxLength xs)) @ ''...'')
                     else JArr xs)
            | Some v \<Rightarrow>
                (if js_gt P (field v ''length'') maxLength then Inl TypeError else Inr v)
            | None \<Rightarrow> Inr (JStr [])))"

definition msg_error_default :: string where
  "msg_error_default = ''An error occurred''"

text \<open>
  \<open>showError(data)\<close>, main.js lines 396-419 and 1005-1028, part_002 lines 302-325. It is
  called with a parsed payload, with an object built by a catch block, and with a plain
  string by the transport's \<open>onerror\<close>; \<open>data.error\<close> of a string is undefined.
\<close>

definition showError :: "json \<Rightarrow> chatapp \<Rightarrow> outcome" where
  "showError data a =
     (let a1 = a\<lparr>answerContent := remove_loading (answerContent a)\<rparr> in
      case getprop data ''error'' of
        Inl e \<Rightarrow> Throw e a1
      | Inr er \<Rightarrow>
          (let shown = (if truthy er then the er else JStr msg_error_default);
               det = field data ''details'';
               errorDiv = ErrorDiv shown (if truthy det then det else None);
               ns = answerContent a1
           in if last_is_ai ns
              then Ok (a1\<lparr>answerContent := butlast ns @ [errorDiv]\<rparr>)
              else Ok (a1\<lparr>answerContent := ns @ [errorDiv]\<rparr>)))"

text \<open>
  \<open>updateAnswer(data)\<close>, main.js lines 348-394 and 957-1003, part_002 lines 254-300.
\<close>

definition updateAnswer :: "platform \<Rightarrow> json \<Rightarrow> chatapp \<Rightarrow> outcome" where
  "updateAnswer P data a =
     (case getprop data ''status'' of
        Inl e \<Rightarrow> Throw e a
      | Inr st \<Rightarrow>
          if st = Some (JStr ''error'') then showError data a
          else
            (let a1 = (if list_ex is_loading (answerContent a)
                       then a\<lparr>answerContent := remove_loading (answerContent a) @ [AiMessage []]\<rparr>
                       else a);
                 c = field data ''content''
             in if truthy c
                then (let a2 = a1\<lparr>currentAnswer := js_concat P (currentAnswer a1) (the c)\<rparr>;
                          ns = answerContent a2
                      in if last_is_ai ns
                         then Ok (a2\<lparr>answerContent := butlast ns @ [AiMessage (currentAnswer a2)]\<rparr>)
                         else Ok a2)
                else Ok a1))"

section \<open>The reference pane\<close>

definition msg_no_content :: string where
  "msg_no_content = ''No content''"

definition msg_no_results :: string where
  "msg_no_results = ''No related search results''"

definition msg_no_papers :: string where
  "msg_no_papers = ''No related papers''"

text \<open>\<open>truncateContent(c) || 'no content'\<close>\<close>

definition content_or_default :: "platform \<Rightarrow> jsv \<Rightarrow> exn + json" where
  "content_or_default P c =
     (case truncateContent P c 300 of
        Inl e \<Rightarrow> Inl e
      | Inr t \<Rightarrow> Inr (if truthy (Some t) then t else JStr msg_no_content))"

text \<open>
  The body of a \<open>setTimeout\<close> callback that builds one reference card: main.js lines
  314-339 and 755-780 (\<open>Generic\<close>), 871-890 (\<open>Web\<close>), 909-929 (\<open>Arxiv\<close>), part_002
  lines 222-245 (\<open>Legacy\<close>). Reading a property of a null result throws inside the
  callback.
\<close>

definition card_of :: "cardkind \<Rightarrow> nat \<Rightarrow> json \<Rightarrow> exn + json \<Rightarrow> exn + card" where
  "card_of k i r c =
     (case c of
        Inl e \<Rightarrow> Inl e
      | Inr t \<Rightarrow> Inr \<lparr>kind = k, idx = i, anchor = Some (field r ''link''), source = r,
                       paper_content = t\<rparr>)"

fun mkcard :: "platform \<Rightarrow> cardkind \<Rightarrow> nat \<Rightarrow> json \<Rightarrow> exn + card" where
  "mkcard P k i JNull = Inl TypeError"
| "mkcard P Generic i r =
     card_of Generic i r
       (if truthy (field r ''isArxiv'')
        then content_or_default P (js_or (field r ''abstract'') (field r ''content''))
        else content_or_default P (field r ''content''))"
| "mkcard P Web i r = card_of Web i r (content_or_default P (field r ''content''))"
| "mkcard P Arxiv i r = card_of Arxiv i r (content_or_default P (field r ''content''))"
| "mkcard P Legacy i r =
     Inr \<lparr>kind = Legacy, idx = i,
          anchor = (if truthy (field r ''isAnswerBox'') then None else Some (field r ''link'')),
          source = r,
          paper_content = the (js_or (field r ''content'') (Some (JStr msg_no_content)))\<rparr>"

text \<open>
  Firing the \<open>k\<close>-th pending callback: the card is appended to the pane; an exception in
  the callback is caught by nobody and leaves the pane as it is.
\<close>

definition runTimer :: "platform \<Rightarrow> nat \<Rightarrow> chatapp \<Rightarrow> chatapp" where
  "runTimer P k a =
     (if k < length (timers a)
      then (case timers a ! k of (d, kd, i, r) \<Rightarrow>
              (let a1 = a\<lparr>timers := take k (timers a) @ drop (Suc k) (timers a)\<rparr> in
               case mkcard P kd i r of
                 Inl e \<Rightarrow> a1
               | Inr c \<Rightarrow> a1\<lparr>referenceCards := referenceCards a1 @ [RCard c]\<rparr>))
      else a)"

text \<open>\<open>results.forEach((result, index) => setTimeout(..., index * 100))\<close>\<close>

definition schedule :: "cardkind \<Rightarrow> json list \<Rightarrow> chatapp \<Rightarrow> chatapp" where
  "schedule kd xs a =
     a\<lparr>timers := timers a @ map (\<lambda>(i, r). (i * 100, kd, i, r)) (enumerate 0 xs)\<rparr>"

text \<open>
  \<open>updateSearchResults(data)\<close>, main.js lines 287-341 and 728-782 (the two are the same).
  A truthy \<open>results\<close> that is not an array has no \<open>forEach\<close>.
\<close>

definition updateSearchResults :: "platform \<Rightarrow> json \<Rightarrow> chatapp \<Rightarrow> outcome" where
  "updateSearchResults P data a =
     (let a1 = a\<lparr>referenceCards := []\<rparr> in
      case getprop data ''status'' of
        Inl e \<Rightarrow> Throw e a1
      | Inr st \<Rightarrow>
          if st = Some (JStr ''error'')
          then Ok (a1\<lparr>referenceCards :=
                        [RError (field data ''error'') (js_or (field data ''details'') (Some (JStr [])))],
                      referencesVisible := False\<rparr>)
          else (case js_or (field data ''results'') (Some (JArr [])) of
                  Some (JArr []) \<Rightarrow>
                    Ok (a1\<lparr>referenceCards := [NoResults msg_no_results], referencesVisible := False\<rparr>)
                | Some (JArr xs) \<Rightarrow> Ok (schedule Generic xs (a1\<lparr>referencesVisible := True\<rparr>))
                | Some (JObj kv) \<Rightarrow>
                    if map_of kv ''length'' = Some (JNum 0)
                    then Ok (a1\<lparr>referenceCards := [NoResults msg_no_results],
                               referencesVisible := False\<rparr>)
                    else Throw TypeError (a1\<lparr>referencesVisible := True\<rparr>)
                | _ \<Rightarrow> Throw TypeError (a1\<lparr>referencesVisible := True\<rparr>)))"

text \<open>\<open>updateSearchResults(data)\<close> of the oldest revision, part_002 lines 197-247.\<close>

definition updateSearchResults_old :: "platform \<Rightarrow> json \<Rightarrow> chatapp \<Rightarrow> outcome" where
  "updateSearchResults_old P data a =
     (if \<not> searchToggle a then Ok a
      else case getprop data ''status'' of
        Inl e \<Rightarrow> Throw e a
      | Inr st \<Rightarrow>
          if st = Some (JStr ''error'')
          then Ok (a\<lparr>referenceCards :=
                       [RError (field data ''error'') (js_or (field data ''details'') (Some (JStr [])))],
                     referencesVisible := False\<rparr>)
          else (case js_or (field data ''results'') (Some (JArr [])) of
                  Some (JArr []) \<Rightarrow>
                    Ok (a\<lparr>referenceCards := [NoResults msg_no_results], referencesVisible := False\<rparr>)
                | Some (JArr xs) \<Rightarrow> Ok (schedule Legacy xs (a\<lparr>referencesVisible := True\<rparr>))
                | Some (JObj kv) \<Rightarrow>
                    if map_of kv ''length'' = Some (JNum 0)
                    then Ok (a\<lparr>referenceCards := [NoResults msg_no_results],
                               referencesVisible := False\<rparr>)
                    else Throw TypeError (a\<lparr>referencesVisible := True\<rparr>)
                | _ \<Rightarrow> Throw TypeError (a\<lparr>referencesVisible := True\<rparr>)))"

text \<open>\<open>handleSearchResults(results)\<close>, main.js lines 856-892.\<close>

definition handleSearchResults :: "json \<Rightarrow> chatapp \<Rightarrow> outcome" where
  "handleSearchResults results a =
     (let a1 = a\<lparr>referenceCards := []\<rparr> in
      case results of
        JArr (x # xs) \<Rightarrow> Ok (schedule Web (x # xs) (a1\<lparr>referencesVisible := True\<rparr>))
      | _ \<Rightarrow> Ok (a1\<lparr>referenceCards := [NoResults msg_no_results], referencesVisible := False\<rparr>))"

text \<open>\<open>handleArxivResults(papers)\<close>, main.js lines 894-931.\<close>

definition handleArxivResults :: "json \<Rightarrow> chatapp \<Rightarrow> outcome" where
  "handleArxivResults papers a =
     (let a1 = a\<lparr>referenceCards := []\<rparr> in
      case papers of
        JArr (x # xs) \<Rightarrow> Ok (schedule Arxiv (x # xs) (a1\<lparr>referencesVisible := True\<rparr>))
      | _ \<Rightarrow> Ok (a1\<lparr>referenceCards := [NoResults msg_no_papers], referencesVisible := False\<rparr>))"

text \<open>
  \<open>handleToolResult(data)\<close>, main.js lines 784-854. The text of the card of any other
  tool is built from the result; the model keeps the result itself. Building it calls
  \<open>Object.entries\<close> on every element of an array result whose \<open>typeof\<close> is
  \<open>'object'\<close>, which throws on null.
\<close>

fun entries_throw :: "json \<Rightarrow> bool" where
  "entries_throw (JArr xs) = (JNull \<in> set xs)"
| "entries_throw v = False"

definition handleToolResult :: "json \<Rightarrow> chatapp \<Rightarrow> outcome" where
  "handleToolResult data a =
     (case getprop data ''tool_name'' of
        Inl e \<Rightarrow> Throw e a
      | Inr tn \<Rightarrow>
          (let res = field data ''result''; msg = field data ''message'' in
           if truthy tn \<and> truthy res then
             (if tn = Some (JStr ''search_web'') then handleSearchResults (the res) a
              else if tn = Some (JStr ''search_arxiv'') then handleArxivResults (the res) a
              else if entries_throw (the res) then Throw TypeError a
              else Ok (a\<lparr>referenceCards :=
                            (if list_ex is_tool_card (referenceCards a) then referenceCards a else [])
                            @ [ToolResultCard (the tn) (the res) (if truthy msg then msg else None)],
                          referencesVisible := True\<rparr>))
           else Ok a))"

text \<open>
  \<open>updateSearchResult(data)\<close>: a no-op in the oldest revision (part_002 lines 249-252)
  and in the first revision of main.js (lines 343-346).
\<close>

definition updateSearchResult :: "json \<Rightarrow> chatapp \<Rightarrow> outcome" where
  "updateSearchResult data a = Ok a"

text \<open>
  \<open>updateSearchResult(data)\<close> of the second revision, main.js lines 933-955. A child
  matches when the resolved address of its anchor is strictly equal to
  \<open>data.result.link\<close>; its \<open>.paper-content\<close> element, which the cards of the
  oldest revision do not have, gets the new text.
\<close>

fun template :: "platform \<Rightarrow> jsv \<Rightarrow> string" where
  "template P None = ''undefined''"
| "template P (Some v) = js_concat P [] v"

fun card_matches :: "platform \<Rightarrow> json \<Rightarrow> rnode \<Rightarrow> bool" where
  "card_matches P l (RCard c) =
     (case anchor c of
        None \<Rightarrow> False
      | Some v \<Rightarrow> l = JStr (resolve_url P (template P v)))"
| "card_matches P l n = False"

fun update_first :: "platform \<Rightarrow> json \<Rightarrow> json \<Rightarrow> rnode list \<Rightarrow> rnode list" where
  "update_first P l t [] = []"
| "update_first P l t (n # ns) =
     (if card_matches P l n
      then (case n of
              RCard c \<Rightarrow> (if kind c = Legacy then n else RCard (c\<lparr>paper_content := t\<rparr>)) # ns
            | _ \<Rightarrow> n # ns)
      else n # update_first P l t ns)"

definition updateSearchResult_b :: "platform \<Rightarrow> json \<Rightarrow> chatapp \<Rightarrow> outcome" where
  "updateSearchResult_b P data a =
     (case getprop data ''result'' of
        Inl e \<Rightarrow> Throw e a
      | Inr r \<Rightarrow>
          if truthy r \<and> truthy (field (the r) ''link'') then
            (let l = the (field (the r) ''link'') in
             if list_ex (card_matches P l) (referenceCards a)
             then (case truncateContent P (field (the r) ''content'') 300 of
                     Inl e \<Rightarrow> Throw e a
                   | Inr t \<Rightarrow> Ok (a\<lparr>referenceCards := update_first P l t (referenceCards a)\<rparr>))
             else updateSearchResults P
                    (JObj [(''status'', JStr ''success''), (''results'', JArr [the r]),
                           (''isInitialResults'', JBool False)]) a)
          else Ok a)"

section \<open>Status events\<close>

definition msg_searching :: jsv where
  "msg_searching = Some (JStr ''Searching...'')"

definition msg_parsing :: jsv where
  "msg_parsing = Some (JStr ''Reading pages...'')"

definition msg_parsing_completed :: jsv where
  "msg_parsing_completed = Some (JStr ''Reading finished'')"

definition msg_generating :: jsv where
  "msg_generating = Some (JStr ''Generating answer...'')"

definition msg_organizing :: jsv where
  "msg_organizing = Some (JStr ''Organizing information...'')"

definition msg_thinking :: jsv where
  "msg_thinking = Some (JStr ''Thinking...'')"

text \<open>\<open>updateStatus(data)\<close> of the oldest revision, part_002 lines 130-195.\<close>

definition updateStatus_old :: "json \<Rightarrow> chatapp \<Rightarrow> outcome" where
  "updateStatus_old data a =
     (case getprop data ''status'' of
        Inl e \<Rightarrow> Throw e a
      | Inr st \<Rightarrow>
          if st = Some (JStr ''searching'') then
            Ok (a\<lparr>referenceCards :=
                     (if searchToggle a then RLoading msg_searching # referenceCards a
                      else referenceCards a),
                   answerContent := set_loading msg_searching (answerContent a)\<rparr>)
          else if st = Some (JStr ''parsing'') then
            Ok (a\<lparr>referenceCards :=
                     (if searchToggle a then set_rloading msg_parsing (referenceCards a)
                      else referenceCards a),
                   answerContent := set_loading msg_parsing (answerContent a)\<rparr>)
          else if st = Some (JStr ''parsing_completed'') then
            Ok (a\<lparr>referenceCards :=
                     (if searchToggle a then set_rloading msg_parsing_completed (referenceCards a)
                      else referenceCards a),
                   answerContent := set_loading msg_parsing_completed (answerContent a)\<rparr>)
          else if st = Some (JStr ''generating'') then
            Ok (a\<lparr>referenceCards :=
                     (if searchToggle a then remove_rloading (referenceCards a)
                      else referenceCards a),
                   answerContent := remove_loading (answerContent a) @ [Loading msg_generating]\<rparr>)
          else Ok a)"

text \<open>\<open>updateStatus(data)\<close> of the first revision of main.js, lines 228-285.\<close>

definition updateStatus_a :: "json \<Rightarrow> chatapp \<Rightarrow> outcome" where
  "updateStatus_a data a =
     (case getprop data ''status'' of
        Inl e \<Rightarrow> Throw e a
      | Inr st \<Rightarrow>
          if st = Some (JStr ''searching'') then
            Ok (a\<lparr>referenceCards := [RLoading msg_searching],
                   referencesVisible := True,
                   answerContent := set_loading msg_searching (answerContent a)\<rparr>)
          else if st = Some (JStr ''parsing'') then
            Ok (a\<lparr>referenceCards := set_rloading msg_parsing (referenceCards a),
                   answerContent := set_loading msg_parsing (answerContent a)\<rparr>)
          else if st = Some (JStr ''parsing_completed'') then
            Ok (a\<lparr>referenceCards := set_rloading msg_parsing_completed (referenceCards a),
                   answerContent := set_loading msg_parsing_completed (answerContent a)\<rparr>)
          else if st = Some (JStr ''generating'') then
            Ok (a\<lparr>referenceCards := remove_rloading (referenceCards a),
                   answerContent := remove_loading (answerContent a) @ [Loading msg_generating]\<rparr>)
          else Ok a)"

text \<open>\<open>Math.round(p * 100)\<close>: the nearest integer, halves upwards.\<close>

definition round_percent :: "platform \<Rightarrow> jsv \<Rightarrow> percent" where
  "round_percent P p =
     (case js_number P p of
        None \<Rightarrow> NaN
      | Some n \<Rightarrow> Percent (\<lfloor>n * 100 + 1 / 2\<rfloor>))"

text \<open>
  \<open>updateStatus(data)\<close> of the second revision of main.js, lines 647-726. The status
  element is the first loading indicator of the answer pane, created empty at its end
  when there is none. The three progress elements are taken to be on the page.
\<close>

definition updateStatus_b :: "platform \<Rightarrow> json \<Rightarrow> chatapp \<Rightarrow> outcome" where
  "updateStatus_b P data a =
     (let a0 = (if list_ex is_loading (answerContent a) then a
                else a\<lparr>answerContent := answerContent a @ [Loading (Some (JStr []))]\<rparr>)
      in case getprop data ''status'' of
        Inl e \<Rightarrow> Throw e a0
      | Inr st \<Rightarrow>
          if st = Some (JStr ''searching'') then
            Ok (a0\<lparr>referenceCards := [RLoading msg_searching],
                    referencesVisible := True,
                    answerContent := set_loading msg_searching (answerContent a0),
                    progressVisible := False\<rparr>)
          else if st = Some (JStr ''fetch_start'') then
            Ok (a0\<lparr>progressVisible := True,
                    progressWidth := Percent 0,
                    progressText := Percent 0,
                    referenceCards := set_rloading (field data ''message'') (referenceCards a0),
                    answerContent := set_loading (field data ''message'') (answerContent a0)\<rparr>)
          else if st = Some (JStr ''fetch_progress'') then
            (let a1 = (if truthy (field data ''progress'')
                       then a0\<lparr>progressWidth := round_percent P (field data ''progress''),
                               progressText := round_percent P (field data ''progress'')\<rparr>
                       else a0)
             in Ok (a1\<lparr>referenceCards := set_rloading (field data ''message'') (referenceCards a1),
                       answerContent := set_loading (field data ''message'') (answerContent a1)\<rparr>))
          else if st = Some (JStr ''fetch_completed'') then
            Ok (a0\<lparr>referenceCards := remove_rloading (referenceCards a0),
                    answerContent := set_loading msg_organizing (answerContent a0)\<rparr>)
          else if st = Some (JStr ''generating'') then
            Ok (a0\<lparr>referenceCards := remove_rloading (referenceCards a0),
                    answerContent := set_loading msg_generating (answerContent a0)\<rparr>)
          else if st = Some (JStr ''completed'') then
            Ok (a0\<lparr>answerContent := remove_loading (answerContent a0)\<rparr>)
          else Ok a0)"

section \<open>The dispatcher\<close>

text \<open>A frame of the event stream: the event type and \<open>event.data\<close> (\<open>None\<close>: undefined).\<close>

record event =
  etype :: string
  edata :: "string option"

text \<open>
  \<open>String.prototype.trim\<close>: white space and line terminators are removed at both
  ends. The strings of the model are ASCII, so these are the six ASCII ones.
\<close>

definition is_space :: "char \<Rightarrow> bool" where
  "is_space c = (c \<in> set [CHR '' '', CHR 0x09, CHR 0x0A, CHR 0x0B, CHR 0x0C, CHR 0x0D])"

definition trim :: "string \<Rightarrow> string" where
  "trim s = rev (dropWhile is_space (rev (dropWhile is_space s)))"

definition msg_processing :: string where
  "msg_processing = ''Error while processing the server response''"

definition msg_invalid_format :: string where
  "msg_invalid_format = ''Invalid server response format''"

definition msg_invalid_details :: string where
  "msg_invalid_details = ''The server returned data in an invalid format''"

text \<open>\<open>error.message\<close>; the wording is the engine's.\<close>

fun error_message :: "exn \<Rightarrow> string" where
  "error_message TypeError = ''TypeError''"
| "error_message SyntaxError = ''SyntaxError''"
| "error_message ReferenceError = ''ReferenceError''"

text \<open>The catch block of \<open>handleEventData\<close> in main.js, lines 210-225 and 629-644.\<close>

fun catch_main :: "outcome \<Rightarrow> outcome" where
  "catch_main (Ok a) = Ok a"
| "catch_main (Throw e a) =
     showError
       (JObj [(''error'', JStr (if e = SyntaxError then msg_invalid_format else msg_processing)),
              (''details'', JStr (if e = SyntaxError then msg_invalid_details else error_message e))])
       a"

text \<open>The catch block of \<open>handleEventData\<close> in part_002, lines 121-127.\<close>

fun catch_old :: "outcome \<Rightarrow> outcome" where
  "catch_old (Ok a) = Ok a"
| "catch_old (Throw e a) =
     showError (JObj [(''error'', JStr msg_processing), (''details'', JStr (error_message e))]) a"

text \<open>\<open>handleEventData(event)\<close> of the oldest revision, part_002 lines 93-128.\<close>

definition handleEventData_old :: "platform \<Rightarrow> event \<Rightarrow> chatapp \<Rightarrow> outcome" where
  "handleEventData_old P ev a =
     catch_old
       (case (case edata ev of None \<Rightarrow> None | Some d \<Rightarrow> JSON_parse P d) of
          None \<Rightarrow> Throw SyntaxError a
        | Some data \<Rightarrow>
            if etype ev = ''status'' then updateStatus_old data a
            else if etype ev = ''search_results'' then
              (if searchToggle a then updateSearchResults_old P data a else Ok a)
            else if etype ev = ''search_result_update'' then
              (if searchToggle a then updateSearchResult data a else Ok a)
            else if etype ev = ''answer'' then updateAnswer P data a
            else if etype ev = ''error'' then showError data a
            else Ok a)"

text \<open>
  The checks that open \<open>handleEventData\<close> in main.js, lines 166-185 and 592-611: the
  parsed payload, or \<open>None\<close> when the frame is dropped.
\<close>

definition accepted :: "platform \<Rightarrow> event \<Rightarrow> json option" where
  "accepted P ev =
     (case edata ev of
        None \<Rightarrow> None
      | Some d \<Rightarrow>
          if d = [] \<or> trim d = [] then None
          else (case JSON_parse P d of
                  None \<Rightarrow> None
                | Some data \<Rightarrow>
                    if \<not> truthy (Some data) \<or> \<not> typeof_object data then None
                    else Some data))"

text \<open>\<open>handleEventData(event)\<close> of the first revision of main.js, lines 164-226.\<close>

definition handleEventData_a :: "platform \<Rightarrow> event \<Rightarrow> chatapp \<Rightarrow> outcome" where
  "handleEventData_a P ev a =
     catch_main
       (case accepted P ev of
          None \<Rightarrow> Ok a
        | Some data \<Rightarrow>
            if etype ev = ''status'' then updateStatus_a data a
            else if etype ev = ''search_results'' then updateSearchResults P data a
            else if etype ev = ''search_result_update'' then updateSearchResult data a
            else if etype ev = ''answer'' then updateAnswer P data a
            else if etype ev = ''error'' then showError data a
            else Ok a)"

text \<open>\<open>handleEventData(event)\<close> of the second revision of main.js, lines 590-645.\<close>

definition handleEventData_b :: "platform \<Rightarrow> event \<Rightarrow> chatapp \<Rightarrow> outcome" where
  "handleEventData_b P ev a =
     catch_main
       (case accepted P ev of
          None \<Rightarrow> Ok a
        | Some data \<Rightarrow>
            if etype ev = ''status'' then updateStatus_b P data a
            else if etype ev = ''tool_result'' then handleToolResult data a
            else if etype ev = ''answer'' then updateAnswer P data a
            else if etype ev = ''error'' then showError data a
            else Ok a)"

section \<open>Sending a message and listening to the stream\<close>

definition msg_send_failed :: string where
  "msg_send_failed = ''An error occurred: ''"

definition msg_disconnected :: string where
  "msg_disconnected = ''Connection lost, please retry''"

definition msg_connection_error :: string where
  "msg_connection_error = ''Connection error, please retry''"

text \<open>The part of \<open>handleSendMessage\<close> before the request, the same in all revisions.\<close>

definition begin_turn :: "string \<Rightarrow> chatapp \<Rightarrow> chatapp" where
  "begin_turn msg a =
     a\<lparr>messageInput := [],
       answerContent :=
         (if list_ex is_loading (answerContent a) \<or> list_ex is_placeholder (answerContent a)
          then [UserMessage msg]
          else answerContent a @ [UserMessage msg]) @ [Loading msg_thinking],
       currentAnswer := []\<rparr>"

text \<open>
  \<open>handleSendMessage()\<close> of main.js, lines 55-162 and 481-588; \<open>now\<close> is what
  \<open>Date.now()\<close> returns. The new \<open>EventSource\<close> is appended to \<open>sources\<close>; nothing is
  done to the sources created before. Without a loaded tool list, \<open>Array.from\<close>
  throws and the catch block shows the error.
\<close>

definition handleSendMessage :: "nat \<Rightarrow> chatapp \<Rightarrow> chatapp" where
  "handleSendMessage now a =
     (let msg = trim (messageInput a) in
      if msg = [] then a
      else (let a1 = begin_turn msg a in
            case toolOptions a1 of
              None \<Rightarrow> state_of (showError (JStr (msg_send_failed @ error_message TypeError)) a1)
            | Some opts \<Rightarrow>
                a1\<lparr>sources := sources a1 @
                      [(CONNECTING, ChatRequest msg now (map fst (filter snd opts)))]\<rparr>))"

text \<open>\<open>handleSendMessage()\<close> of the oldest revision, part_002 lines 21-91.\<close>

definition handleSendMessage_old :: "chatapp \<Rightarrow> chatapp" where
  "handleSendMessage_old a =
     (let msg = trim (messageInput a) in
      if msg = [] then a
      else (let a1 = begin_turn msg a in
            a1\<lparr>sources := sources a1 @ [(CONNECTING, LegacyRequest msg (searchToggle a1))]\<rparr>))"

text \<open>\<open>eventSource.close()\<close> on the \<open>i\<close>-th source.\<close>

definition close_source :: "nat \<Rightarrow> chatapp \<Rightarrow> chatapp" where
  "close_source i a =
     (if i < length (sources a)
      then a\<lparr>sources := (sources a)[i := (CLOSED, snd (sources a ! i))]\<rparr>
      else a)"

definition ready_state :: "nat \<Rightarrow> chatapp \<Rightarrow> readyState" where
  "ready_state i a = fst (sources a ! i)"

definition listened_a :: "string list" where
  "listened_a = [''status'', ''search_results'', ''search_result_update'', ''answer'',
                 ''error'', ''complete'']"

definition listened_b :: "string list" where
  "listened_b = [''status'', ''tool_result'', ''answer'', ''error'', ''complete'']"

definition listened_old :: "string list" where
  "listened_old = [''status'', ''search_results'', ''search_result_update'', ''answer'',
                   ''error'']"

text \<open>The catch block of a listener in main.js, lines 125-131 and 551-557.\<close>

fun catch_listener :: "outcome \<Rightarrow> outcome" where
  "catch_listener (Ok a) = Ok a"
| "catch_listener (Throw e a) =
     showError (JObj [(''error'', JStr msg_processing), (''details'', JStr (error_message e))]) a"

text \<open>
  The listener that \<open>handleSendMessage\<close> registers on the \<open>i\<close>-th source for each
  event type it names, main.js lines 102-132 (first revision) and 528-558 (second). A
  frame of another type, or on a source that was never created, reaches no listener.
\<close>

definition after_dispatch :: "nat \<Rightarrow> event \<Rightarrow> outcome \<Rightarrow> outcome" where
  "after_dispatch i ev r =
     (case r of
        Ok a \<Rightarrow> if etype ev = ''complete'' then Ok (close_source i a) else Ok a
      | Throw e a \<Rightarrow> Throw e a)"

definition listener_a :: "platform \<Rightarrow> nat \<Rightarrow> event \<Rightarrow> chatapp \<Rightarrow> outcome" where
  "listener_a P i ev a =
     (if i \<ge> length (sources a) \<or> etype ev \<notin> set listened_a then Ok a
      else if ready_state i a = CLOSED then Ok a
      else if edata ev = None \<or> edata ev = Some [] then Ok a
      else catch_listener (after_dispatch i ev (handleEventData_a P ev a)))"

definition listener_b :: "platform \<Rightarrow> nat \<Rightarrow> event \<Rightarrow> chatapp \<Rightarrow> outcome" where
  "listener_b P i ev a =
     (if i \<ge> length (sources a) \<or> etype ev \<notin> set listened_b then Ok a
      else if ready_state i a = CLOSED then Ok a
      else if edata ev = None \<or> edata ev = Some [] then Ok a
      else catch_listener (after_dispatch i ev (handleEventData_b P ev a)))"

text \<open>
  The listener of the oldest revision, part_002 lines 58-71. It has no check of its
  own on \<open>readyState\<close>; the browser dispatches no event on a closed source. Its catch
  block names \<open>data\<close>, which is declared in the try block and so is not in scope: what it
  catches leaves the listener as a ReferenceError.
\<close>

definition listener_old :: "platform \<Rightarrow> nat \<Rightarrow> event \<Rightarrow> chatapp \<Rightarrow> outcome" where
  "listener_old P i ev a =
     (if i \<ge> length (sources a) \<or> etype ev \<notin> set listened_old then Ok a
      else if ready_state i a = CLOSED then Ok a
      else (case handleEventData_old P ev a of
              Throw e a1 \<Rightarrow> Throw ReferenceError a1
            | Ok a1 \<Rightarrow>
                (case (case edata ev of None \<Rightarrow> None | Some d \<Rightarrow> JSON_parse P d) of
                   None \<Rightarrow> Throw ReferenceError a1
                 | Some data \<Rightarrow>
                     if etype ev = ''status'' then
                       (case getprop data ''status'' of
                          Inl e \<Rightarrow> Throw ReferenceError a1
                        | Inr st \<Rightarrow>
                            if st = Some (JStr ''completed'') then Ok (close_source i a1)
                            else Ok a1)
                     else Ok a1)))"

text \<open>
  \<open>eventSource.onerror\<close> of main.js, lines 135-153 and 561-579, called by the browser
  after it has set \<open>readyState\<close>.
\<close>

definition onerror :: "nat \<Rightarrow> chatapp \<Rightarrow> outcome" where
  "onerror i a =
     (if i \<ge> length (sources a) then Ok a
      else (case ready_state i a of
              CONNECTING \<Rightarrow> Ok a
            | CLOSED \<Rightarrow> if currentAnswer a = [] then showError (JStr msg_disconnected) a else Ok a
            | OPEN \<Rightarrow>
                (case showError (JStr msg_connection_error) a of
                   Ok a1 \<Rightarrow> Ok (close_source i a1)
                 | Throw e a1 \<Rightarrow> Throw e a1)))"

text \<open>\<open>eventSource.onerror\<close> of the oldest revision, part_002 lines 74-82.\<close>

definition onerror_old :: "nat \<Rightarrow> chatapp \<Rightarrow> outcome" where
  "onerror_old i a =
     (if i \<ge> length (sources a) then Ok a
      else if ready_state i a = CLOSED then Ok a
      else (case showError (JStr msg_connection_error) a of
              Ok a1 \<Rightarrow> Ok (close_source i a1)
            | Throw e a1 \<Rightarrow> Throw e a1))"

text \<open>The constructor: an empty answer buffer (main.js lines 9 and 435, part_002 line 9).\<close>

definition initial :: "anode list \<Rightarrow> rnode list \<Rightarrow> bool \<Rightarrow> chatapp" where
  "initial page cards toggle =
     \<lparr>messageInput = [], answerContent = page, referenceCards = cards,
      referencesVisible = False, currentAnswer = [], progressVisible = False,
      progressWidth = Percent 0, progressText = Percent 0, toolOptions = None,
      searchToggle = toggle, timers = [], sources = []\<rparr>"

text \<open>Frames arriving one after the other on the \<open>i\<close>-th source.\<close>

fun frames_a :: "platform \<Rightarrow> nat \<Rightarrow> event list \<Rightarrow> chatapp \<Rightarrow> chatapp" where
  "frames_a P i [] a = a"
| "frames_a P i (ev # evs) a = frames_a P i evs (state_of (listener_a P i ev a))"

fun frames_b :: "platform \<Rightarrow> nat \<Rightarrow> event list \<Rightarrow> chatapp \<Rightarrow> chatapp" where
  "frames_b P i [] a = a"
| "frames_b P i (ev # evs) a = frames_b P i evs (state_of (listener_b P i ev a))"

fun frames_old :: "platform \<Rightarrow> nat \<Rightarrow> event list \<Rightarrow> chatapp \<Rightarrow> chatapp" where
  "frames_old P i [] a = a"
| "frames_old P i (ev # evs) a = frames_old P i evs (state_of (listener_old P i ev a))"

section \<open>Sample inputs\<close>

text \<open>
  A platform for evaluating the client on concrete frames. Its parser knows the payloads
  listed here, with the values \<open>JSON.parse\<close> gives them, and rejects every other text;
  \<open>'{'\<close> is among the rejected. The addresses used with it are absolute and
  normalised, which resolve to themselves.
\<close>

definition sample_payloads :: "(string \<times> json) list" where
  \<open>sample_payloads =
     [(''null'', JNull),
      (''42'', JNum 42),
      (''{}'', JObj []),
      (''{"status":"searching"}'', JObj [(''status'', JStr ''searching'')]),
      (''{"status":"completed"}'', JObj [(''status'', JStr ''completed'')]),
      (''{"content":"x"}'', JObj [(''content'', JStr ''x'')]),
      (''{"content":"He"}'', JObj [(''content'', JStr ''He'')]),
      (''{"content":"llo"}'', JObj [(''content'', JStr ''llo'')]),
      (''{"content":""}'', JObj [(''content'', JStr [])]),
      (''{"error":"timeout"}'', JObj [(''error'', JStr ''timeout'')]),
      (''{"result":{"link":"https://example.org/a","content":"new"}}'',
         JObj [(''result'', JObj [(''link'', JStr ''https://example.org/a''),
                                  (''content'', JStr ''new'')])]),
      (''{"status":"fetch_progress","progress":1.5}'',
         JObj [(''status'', JStr ''fetch_progress''), (''progress'', JNum (3 / 2))]),
      (''{"status":"fetch_progress","progress":-0.5}'',
         JObj [(''status'', JStr ''fetch_progress''), (''progress'', JNum (- 1 / 2))]),
      (''{"status":"fetch_progress","progress":0.25}'',
         JObj [(''status'', JStr ''fetch_progress''), (''progress'', JNum (1 / 4))]),
      (''{"status":"fetch_progress","progress":0}'',
         JObj [(''status'', JStr ''fetch_progress''), (''progress'', JNum 0)])]\<close>

definition sample_platform :: platform where
  "sample_platform =
     \<lparr>JSON_parse = map_of sample_payloads,
      ToString = (\<lambda>v. ''[object Object]''),
      ToNumber = (\<lambda>v. None),
      resolve_url = (\<lambda>s. s)\<rparr>"

definition frame :: "string \<Rightarrow> string \<Rightarrow> event" where
  "frame t d = \<lparr>etype = t, edata = Some d\<rparr>"

text \<open>A page showing the placeholder, with the tool list loaded and a message typed.\<close>

definition sample_app :: chatapp where
  "sample_app =
     (initial [Placeholder] [] True)
       \<lparr>messageInput := ''hello'', toolOptions := Some [(''search_web'', True)]\<rparr>"

text \<open>The browser announcing the connection of the \<open>i\<close>-th source.\<close>

definition connected :: "nat \<Rightarrow> chatapp \<Rightarrow> chatapp" where
  "connected i a =
     (if i < length (sources a) \<and> ready_state i a = CONNECTING
      then a\<lparr>sources := (sources a)[i := (OPEN, snd (sources a ! i))]\<rparr>
      else a)"

text \<open>The sample page after the message was sent and the stream connected.\<close>

definition sample_turn :: chatapp where
  "sample_turn = connected 0 (handleSendMessage 1700000000000 sample_app)"

text \<open>A card for the address \<open>https://example.org/a\<close> with the content \<open>old\<close>.\<close>

definition sample_card :: card where
  "sample_card =
     \<lparr>kind = Generic, idx = 0, anchor = Some (Some (JStr ''https://example.org/a'')),
      source = JObj [(''link'', JStr ''https://example.org/a''), (''content'', JStr ''old'')],
      paper_content = JStr ''old''\<rparr>"

text \<open>
  A payload that carries the content fragment \<open>f\<close>: a non-blank text that parses to an
  object whose \<open>content\<close> is the string \<open>f\<close> and whose \<open>status\<close> is not \<open>'error'\<close>.
\<close>

definition carries :: "platform \<Rightarrow> string \<Rightarrow> string \<Rightarrow> bool" where
  "carries P d f =
     (d \<noteq> [] \<and> trim d \<noteq> [] \<and>
      (case JSON_parse P d of
         Some (JObj kv) \<Rightarrow>
           map_of kv ''status'' \<noteq> Some (JStr ''error'') \<and> map_of kv ''content'' = Some (JStr f)
       | _ \<Rightarrow> False))"

definition answer_frames :: "(string \<times> string) list \<Rightarrow> event list" where
  "answer_frames dfs = map (\<lambda>(d, f). frame ''answer'' d) dfs"

text \<open>The same page with a second message typed, and two answer fragments.\<close>

definition sample_again :: chatapp where
  "sample_again = sample_turn\<lparr>messageInput := ''again''\<rparr>"

definition sample_fragments :: "(string \<times> string) list" where
  \<open>sample_fragments = [(''{"content":"He"}'', ''He''), (''{"content":"llo"}'', ''llo'')]\<close>



text \<open>The sample page with one reference card, and with its stream closed.\<close>

definition sample_cards :: chatapp where
  "sample_cards = sample_turn\<lparr>referenceCards := [RCard sample_card]\<rparr>"



section \<open>Facts about the shared methods\<close>


lemma showError_string:
  "showError (JStr s) a =
     Ok (a\<lparr>answerContent :=
            (let ns = remove_loading (answerContent a);
                 errorDiv = ErrorDiv (JStr msg_error_default) None
             in if last_is_ai ns then butlast ns @ [errorDiv] else ns @ [errorDiv])\<rparr>)"
  by (simp add: showError_def Let_def)

lemma showError_pane:
  "\<exists>ns. state_of (showError data a) = a\<lparr>answerContent := ns\<rparr>"
  by (cases data) (auto simp: showError_def Let_def)

lemma updateAnswer_object:
  assumes "map_of kv ''status'' \<noteq> Some (JStr ''error'')"
  shows "updateAnswer P (JObj kv) a =
     (let a1 = (if list_ex is_loading (answerContent a)
                then a\<lparr>answerContent := remove_loading (answerContent a) @ [AiMessage []]\<rparr>
                else a);
          c = map_of kv ''content''
      in if truthy c
         then (let a2 = a1\<lparr>currentAnswer := js_concat P (currentAnswer a1) (the c)\<rparr>;
                   ns = answerContent a2
               in if last_is_ai ns
                  then Ok (a2\<lparr>answerContent := butlast ns @ [AiMessage (currentAnswer a2)]\<rparr>)
                  else Ok a2)
         else Ok a1)"
  using assms by (simp add: updateAnswer_def Let_def)

lemma updateAnswer_fragment:
  assumes "map_of kv ''status'' \<noteq> Some (JStr ''error'')"
    and "map_of kv ''content'' = Some (JStr f)"
  shows "\<exists>a'. updateAnswer P (JObj kv) a = Ok a' \<and> currentAnswer a' = currentAnswer a @ f
            \<and> sources a' = sources a"
  using assms by (cases "f = []") (simp_all add: updateAnswer_object Let_def)

lemma accepted_object:
  assumes "d \<noteq> []" "trim d \<noteq> []" "JSON_parse P d = Some (JObj kv)"
  shows "accepted P (frame t d) = Some (JObj kv)"
  using assms by (simp add: accepted_def frame_def)

lemma answer_in_listened: "''answer'' \<in> set listened_a" "''answer'' \<in> set listened_b" "''answer'' \<in> set listened_old"
  by (simp_all add: listened_a_def listened_b_def listened_old_def)

lemma listener_b_answer:
  assumes "i < length (sources a)" "ready_state i a \<noteq> CLOSED"
    and "d \<noteq> []" "trim d \<noteq> []" "JSON_parse P d = Some (JObj kv)"
    and "updateAnswer P (JObj kv) a = Ok a'"
  shows "listener_b P i (frame ''answer'' d) a = Ok a'"
  using assms accepted_object[OF assms(3,4,5), of "''answer''"]
  by (simp add: listener_b_def answer_in_listened handleEventData_b_def after_dispatch_def frame_def)

lemma listener_a_answer:
  assumes "i < length (sources a)" "ready_state i a \<noteq> CLOSED"
    and "d \<noteq> []" "trim d \<noteq> []" "JSON_parse P d = Some (JObj kv)"
    and "updateAnswer P (JObj kv) a = Ok a'"
  shows "listener_a P i (frame ''answer'' d) a = Ok a'"
  using assms accepted_object[OF assms(3,4,5), of "''answer''"]
  by (simp add: listener_a_def answer_in_listened handleEventData_a_def after_dispatch_def frame_def)

lemma listener_old_answer:
  assumes "i < length (sources a)" "ready_state i a \<noteq> CLOSED"
    and "JSON_parse P d = Some (JObj kv)"
    and "updateAnswer P (JObj kv) a = Ok a'"
  shows "listener_old P i (frame ''answer'' d) a = Ok a'"
  using assms
  by (simp add: listener_old_def answer_in_listened handleEventData_old_def frame_def)

subsection \<open>Answer frames\<close>

lemma carries_step:
  assumes "carries P d f" "i < length (sources a)" "ready_state i a \<noteq> CLOSED"
  shows "\<exists>a'. listener_a P i (frame ''answer'' d) a = Ok a'
            \<and> listener_b P i (frame ''answer'' d) a = Ok a'
            \<and> listener_old P i (frame ''answer'' d) a = Ok a'
            \<and> currentAnswer a' = currentAnswer a @ f \<and> sources a' = sources a"
proof -
  from assms(1) obtain kv where p: "JSON_parse P d = Some (JObj kv)"
    and st: "map_of kv ''status'' \<noteq> Some (JStr ''error'')"
    and c: "map_of kv ''content'' = Some (JStr f)"
    and d: "d \<noteq> []" "trim d \<noteq> []"
    by (auto simp: carries_def split: option.splits json.splits)
  from updateAnswer_fragment[OF st c, of P a] obtain a' where
    u: "updateAnswer P (JObj kv) a = Ok a'" and r: "currentAnswer a' = currentAnswer a @ f"
    "sources a' = sources a" by blast
  show ?thesis
    using listener_a_answer[OF assms(2,3) d p u] listener_b_answer[OF assms(2,3) d p u]
      listener_old_answer[OF assms(2,3) p u] r by simp
qed

lemma frames_concat:
  assumes "\<forall>(d, f) \<in> set dfs. carries P d f" "i < length (sources a)" "ready_state i a \<noteq> CLOSED"
  shows "currentAnswer (frames_a P i (answer_frames dfs) a) = currentAnswer a @ concat (map snd dfs)
       \<and> currentAnswer (frames_b P i (answer_frames dfs) a) = currentAnswer a @ concat (map snd dfs)
       \<and> currentAnswer (frames_old P i (answer_frames dfs) a) = currentAnswer a @ concat (map snd dfs)"
  using assms
proof (induction dfs arbitrary: a)
  case Nil
  then show ?case by (simp add: answer_frames_def)
next
  case (Cons x dfs)
  obtain d f where x: "x = (d, f)" by (cases x)
  from Cons.prems x have c: "carries P d f" by simp
  from carries_step[OF c Cons.prems(2,3)] obtain a' where
    s: "listener_a P i (frame ''answer'' d) a = Ok a'"
       "listener_b P i (frame ''answer'' d) a = Ok a'"
       "listener_old P i (frame ''answer'' d) a = Ok a'"
       "currentAnswer a' = currentAnswer a @ f" "sources a' = sources a" by blast
  have "i < length (sources a')" "ready_state i a' \<noteq> CLOSED"
    using Cons.prems(2,3) s(5) by (simp_all add: ready_state_def)
  with Cons.IH[of a'] Cons.prems(1) show ?case
    using s x by (simp add: answer_frames_def)
qed

subsection \<open>The answer buffer only grows\<close>

lemma showError_buffer [simp]:
  "currentAnswer (state_of (showError data a)) = currentAnswer a"
  "sources (state_of (showError data a)) = sources a"
  using showError_pane[of data a] by auto

lemma catch_main_buffer [simp]:
  "currentAnswer (state_of (catch_main r)) = currentAnswer (state_of r)"
  "sources (state_of (catch_main r)) = sources (state_of r)"
  by (cases r; simp)+

lemma catch_old_buffer [simp]:
  "currentAnswer (state_of (catch_old r)) = currentAnswer (state_of r)"
  "sources (state_of (catch_old r)) = sources (state_of r)"
  by (cases r; simp)+

lemma catch_listener_buffer [simp]:
  "currentAnswer (state_of (catch_listener r)) = currentAnswer (state_of r)"
  by (cases r; simp)

lemma close_source_buffer [simp]: "currentAnswer (close_source i a) = currentAnswer a"
  by (simp add: close_source_def)

lemma after_dispatch_buffer [simp]:
  "currentAnswer (state_of (after_dispatch i ev r)) = currentAnswer (state_of r)"
  by (cases r) (simp_all add: after_dispatch_def)

lemma updateStatus_old_buffer [simp]:
  "currentAnswer (state_of (updateStatus_old data a)) = currentAnswer a"
  by (simp add: updateStatus_old_def split: sum.splits)

lemma updateStatus_a_buffer [simp]:
  "currentAnswer (state_of (updateStatus_a data a)) = currentAnswer a"
  by (simp add: updateStatus_a_def split: sum.splits)

lemma updateStatus_b_buffer [simp]:
  "currentAnswer (state_of (updateStatus_b P data a)) = currentAnswer a"
  by (simp add: updateStatus_b_def Let_def split: sum.splits)

lemma schedule_buffer [simp]: "currentAnswer (schedule k xs a) = currentAnswer a"
  by (simp add: schedule_def)

lemma updateSearchResults_buffer [simp]:
  "currentAnswer (state_of (updateSearchResults P data a)) = currentAnswer a"
  by (simp add: updateSearchResults_def Let_def split: sum.splits option.splits json.splits list.splits)

lemma updateSearchResults_old_buffer [simp]:
  "currentAnswer (state_of (updateSearchResults_old P data a)) = currentAnswer a"
  by (simp add: updateSearchResults_old_def Let_def split: sum.splits option.splits json.splits list.splits)

lemma handleToolResult_buffer [simp]:
  "currentAnswer (state_of (handleToolResult data a)) = currentAnswer a"
  by (simp add: handleToolResult_def handleSearchResults_def handleArxivResults_def Let_def
      split: sum.splits option.splits json.splits list.splits)

lemma updateAnswer_extends:
  "\<exists>s. currentAnswer (state_of (updateAnswer P data a)) = currentAnswer a @ s"
proof (cases "getprop data ''status''")
  case (Inl e)
  then show ?thesis by (simp add: updateAnswer_def)
next
  case (Inr st)
  show ?thesis
  proof (cases "st = Some (JStr ''error'')")
    case True
    with Inr show ?thesis by (simp add: updateAnswer_def)
  next
    case False
    have j: "\<exists>s. js_concat P x v = x @ s" for x v by (cases v) simp_all
    from j[of "currentAnswer a" "the (field data ''content'')"] obtain s where
      s: "js_concat P (currentAnswer a) (the (field data ''content'')) = currentAnswer a @ s" by blast
    with Inr False show ?thesis
      by (auto simp: updateAnswer_def Let_def)
  qed
qed

lemma handleEventData_b_extends:
  "\<exists>s. currentAnswer (state_of (handleEventData_b P ev a)) = currentAnswer a @ s"
  using updateAnswer_extends[of P _ a]
  by (simp add: handleEventData_b_def split: option.splits)

lemma handleEventData_a_extends:
  "\<exists>s. currentAnswer (state_of (handleEventData_a P ev a)) = currentAnswer a @ s"
  using updateAnswer_extends[of P _ a]
  by (simp add: handleEventData_a_def updateSearchResult_def split: option.splits)

lemma handleEventData_old_extends:
  "\<exists>s. currentAnswer (state_of (handleEventData_old P ev a)) = currentAnswer a @ s"
  using updateAnswer_extends[of P _ a]
  by (simp add: handleEventData_old_def updateSearchResult_def split: option.splits)

lemma listener_b_extends:
  "\<exists>s. currentAnswer (state_of (listener_b P i ev a)) = currentAnswer a @ s"
  using handleEventData_b_extends[of P ev a] by (simp add: listener_b_def)

lemma listener_a_extends:
  "\<exists>s. currentAnswer (state_of (listener_a P i ev a)) = currentAnswer a @ s"
  using handleEventData_a_extends[of P ev a] by (simp add: listener_a_def)

lemma listener_old_extends:
  "\<exists>s. currentAnswer (state_of (listener_old P i ev a)) = currentAnswer a @ s"
  using handleEventData_old_extends[of P ev a]
  by (auto simp: listener_old_def split: outcome.splits option.splits sum.splits)

lemma handleEventData_b_other:
  "etype ev \<noteq> ''answer'' \<Longrightarrow> currentAnswer (state_of (handleEventData_b P ev a)) = currentAnswer a"
  by (simp add: handleEventData_b_def split: option.splits)

lemma handleEventData_a_other:
  "etype ev \<noteq> ''answer'' \<Longrightarrow> currentAnswer (state_of (handleEventData_a P ev a)) = currentAnswer a"
  by (simp add: handleEventData_a_def updateSearchResult_def split: option.splits)

lemma listener_other:
  "etype ev \<noteq> ''answer'' \<Longrightarrow>
     currentAnswer (state_of (listener_a P i ev a)) = currentAnswer a
   \<and> currentAnswer (state_of (listener_b P i ev a)) = currentAnswer a"
  by (simp add: listener_a_def listener_b_def handleEventData_a_other handleEventData_b_other)

lemma onerror_buffer:
  "currentAnswer (state_of (onerror i a)) = currentAnswer a"
  "currentAnswer (state_of (onerror_old i a)) = currentAnswer a"
  by (auto simp: onerror_def onerror_old_def showError_string split: readyState.splits)

lemma runTimer_buffer: "currentAnswer (runTimer P k a) = currentAnswer a"
  by (simp add: runTimer_def Let_def split: prod.splits sum.splits)

lemma handleSendMessage_resets:
  "trim (messageInput a) \<noteq> [] \<Longrightarrow>
     currentAnswer (handleSendMessage now a) = [] \<and> currentAnswer (handleSendMessage_old a) = []"
  by (simp add: handleSendMessage_def handleSendMessage_old_def begin_turn_def Let_def
      split: option.splits)

subsection \<open>The sample page\<close>

lemma sample_turn_eq:
  "sample_turn =
     \<lparr>messageInput = [], answerContent = [UserMessage ''hello'', Loading msg_thinking],
      referenceCards = [], referencesVisible = False, currentAnswer = [],
      progressVisible = False, progressWidth = Percent 0, progressText = Percent 0,
      toolOptions = Some [(''search_web'', True)], searchToggle = True, timers = [],
      sources = [(OPEN, ChatRequest ''hello'' 1700000000000 [''search_web''])]\<rparr>"
  by (simp add: sample_turn_def connected_def handleSendMessage_def sample_app_def initial_def
      begin_turn_def trim_def is_space_def ready_state_def Let_def)

lemma sample_turn_source: "0 < length (sources sample_turn)" "ready_state 0 sample_turn = OPEN"
  "0 < length (sources sample_again)" "ready_state 0 sample_again = OPEN"
  by (simp_all add: sample_turn_eq ready_state_def sample_again_def)

lemma trim_sample: "trim ''again'' = ''again''" "trim ''   '' = []"
  \<open>trim ''{}'' \<noteq> []\<close>
  by (simp_all add: trim_def is_space_def)

lemma sample_fragments_carry: "\<forall>(d, f) \<in> set sample_fragments. carries sample_platform d f"
  by (simp add: sample_fragments_def carries_def sample_platform_def sample_payloads_def trim_def is_space_def)

lemma remove_loading_none: "\<not> list_ex is_loading ns \<Longrightarrow> remove_loading ns = ns"
  by (induction ns) auto

lemma remove_loading_appended:
  "\<not> list_ex is_loading ns \<Longrightarrow> remove_loading (ns @ [Loading t]) = ns"
  by (induction ns) auto

lemma sample_parse:
  \<open>JSON_parse sample_platform ''{"status":"completed"}'' = Some (JObj [(''status'', JStr ''completed'')])\<close>
  \<open>JSON_parse sample_platform ''{"content":"x"}'' = Some (JObj [(''content'', JStr ''x'')])\<close>
  \<open>JSON_parse sample_platform ''{"error":"timeout"}'' = Some (JObj [(''error'', JStr ''timeout'')])\<close>
  \<open>JSON_parse sample_platform ''{}'' = Some (JObj [])\<close>
  \<open>JSON_parse sample_platform ''null'' = Some JNull\<close>
  \<open>JSON_parse sample_platform ''42'' = Some (JNum 42)\<close>
  \<open>JSON_parse sample_platform ''{'' = None\<close>
  by (simp_all add: sample_platform_def sample_payloads_def)

lemma sample_trim:
  \<open>trim ''{"status":"completed"}'' \<noteq> []\<close>
  \<open>trim ''{"content":"x"}'' \<noteq> []\<close>
  \<open>trim ''{"error":"timeout"}'' \<noteq> []\<close>
  \<open>trim ''null'' \<noteq> []\<close> \<open>trim ''42'' \<noteq> []\<close> \<open>trim ''{'' \<noteq> []\<close>
  by (simp_all add: trim_def is_space_def)

lemma carries_x: \<open>carries sample_platform ''{"content":"x"}'' ''x''\<close>
  by (simp add: carries_def sample_parse sample_trim)

subsection \<open>Completion and closing\<close>

lemma in_listened:
  "''status'' \<in> set listened_a" "''status'' \<in> set listened_b" "''status'' \<in> set listened_old"
  "''error'' \<in> set listened_a" "''error'' \<in> set listened_b" "''error'' \<in> set listened_old"
  "''complete'' \<in> set listened_a" "''complete'' \<in> set listened_b" "''complete'' \<notin> set listened_old"
  "''search_result_update'' \<in> set listened_a" "''search_result_update'' \<notin> set listened_b"
  by (simp_all add: listened_a_def listened_b_def listened_old_def)

lemma updateStatus_b_completed:
  "map_of kv ''status'' = Some (JStr ''completed'') \<Longrightarrow>
   updateStatus_b P (JObj kv) a = Ok (a\<lparr>answerContent := remove_loading (answerContent a)\<rparr>)"
  by (simp add: updateStatus_b_def Let_def remove_loading_none remove_loading_appended)

lemma listener_b_completed:
  assumes "i < length (sources a)" "ready_state i a \<noteq> CLOSED"
    and "d \<noteq> []" "trim d \<noteq> []" "JSON_parse P d = Some (JObj kv)"
    and "map_of kv ''status'' = Some (JStr ''completed'')"
  shows "listener_b P i (frame ''status'' d) a = Ok (a\<lparr>answerContent := remove_loading (answerContent a)\<rparr>)"
  using assms(1-3) accepted_object[OF assms(3,4,5), of "''status''"] updateStatus_b_completed[OF assms(6)]
  by (simp add: listener_b_def in_listened handleEventData_b_def after_dispatch_def frame_def)

lemma listener_a_completed:
  assumes "i < length (sources a)" "ready_state i a \<noteq> CLOSED"
    and "d \<noteq> []" "trim d \<noteq> []" "JSON_parse P d = Some (JObj kv)"
    and "map_of kv ''status'' = Some (JStr ''completed'')"
  shows "listener_a P i (frame ''status'' d) a = Ok a"
  using assms(1-3,6) accepted_object[OF assms(3,4,5), of "''status''"]
  by (simp add: listener_a_def in_listened handleEventData_a_def after_dispatch_def frame_def
      updateStatus_a_def)

lemma listener_old_completed:
  assumes "i < length (sources a)" "ready_state i a \<noteq> CLOSED"
    and "JSON_parse P d = Some (JObj kv)"
    and "map_of kv ''status'' = Some (JStr ''completed'')"
  shows "listener_old P i (frame ''status'' d) a = Ok (close_source i a)"
  using assms
  by (simp add: listener_old_def in_listened handleEventData_old_def frame_def updateStatus_old_def)

lemma handleEventData_complete:
  "handleEventData_a P (frame ''complete'' d) a = Ok a"
  "handleEventData_b P (frame ''complete'' d) a = Ok a"
  by (simp_all add: handleEventData_a_def handleEventData_b_def frame_def split: option.splits)

lemma listener_complete:
  assumes "i < length (sources a)" "ready_state i a \<noteq> CLOSED" "d \<noteq> []"
  shows "listener_a P i (frame ''complete'' d) a = Ok (close_source i a)"
    and "listener_b P i (frame ''complete'' d) a = Ok (close_source i a)"
  using assms handleEventData_complete[of P d a]
  by (simp_all add: listener_a_def listener_b_def in_listened after_dispatch_def)
     (simp_all add: frame_def)

lemma close_source_closed:
  "i < length (sources a) \<Longrightarrow> ready_state i (close_source i a) = CLOSED"
  "length (sources (close_source i a)) = length (sources a)"
  by (simp_all add: close_source_def ready_state_def)

lemma listener_closed:
  assumes "ready_state i a = CLOSED"
  shows "listener_a P i ev a = Ok a" "listener_b P i ev a = Ok a" "listener_old P i ev a = Ok a"
  using assms by (simp_all add: listener_a_def listener_b_def listener_old_def)




subsection \<open>Error frames\<close>



subsection \<open>Malformed payloads\<close>

lemma msg_nonempty [simp]: "msg_processing \<noteq> []" "msg_invalid_format \<noteq> []"
  "msg_invalid_details \<noteq> []" "msg_error_default \<noteq> []"
  by (simp_all add: msg_processing_def msg_invalid_format_def msg_invalid_details_def
      msg_error_default_def)



subsection \<open>Updates of one reference\<close>

lemma listener_search_result_update:
  "listener_a P i (frame ''search_result_update'' d) a = Ok a"
  "listener_b P i (frame ''search_result_update'' d) a = Ok a"
  by (simp_all add: listener_a_def listener_b_def in_listened handleEventData_a_def
      updateSearchResult_def after_dispatch_def frame_def split: option.splits)

lemma update_first_length [simp]: "length (update_first P l t ns) = length ns"
  by (induction ns) (auto split: rnode.splits)

lemma card_matches_card: "card_matches P l n \<Longrightarrow> \<exists>c. n = RCard c"
  by (cases n) simp_all

lemma update_first_at:
  assumes "list_ex (card_matches P l) ns"
  shows "\<exists>k c. k < length ns \<and> ns ! k = RCard c \<and> card_matches P l (ns ! k)
           \<and> (\<forall>j < k. \<not> card_matches P l (ns ! j))
           \<and> update_first P l t ns
               = ns[k := (if kind c = Legacy then RCard c else RCard (c\<lparr>paper_content := t\<rparr>))]"
  using assms
proof (induction ns)
  case Nil
  then show ?case by simp
next
  case (Cons n ns)
  show ?case
  proof (cases "card_matches P l n")
    case True
    then obtain c where c: "n = RCard c" using card_matches_card by blast
    show ?thesis
      by (rule exI[of _ 0], rule exI[of _ c]) (use True c in simp)
  next
    case False
    with Cons.prems have "list_ex (card_matches P l) ns" by simp
    from Cons.IH[OF this] obtain k c where
      k: "k < length ns" "ns ! k = RCard c" "card_matches P l (ns ! k)"
         "\<forall>j < k. \<not> card_matches P l (ns ! j)"
         "update_first P l t ns
            = ns[k := (if kind c = Legacy then RCard c else RCard (c\<lparr>paper_content := t\<rparr>))]"
      by blast
    have "\<forall>j < Suc k. \<not> card_matches P l ((n # ns) ! j)"
      using False k(4) by (auto simp: less_Suc_eq_0_disj)
    then show ?thesis
      using False k by (intro exI[of _ "Suc k"] exI[of _ c]) simp
  qed
qed

lemma card_matches_update [simp]:
  "card_matches P l (RCard (c\<lparr>paper_content := t\<rparr>)) = card_matches P l (RCard c)"
  by simp

lemma update_first_idem:
  "update_first P l t (update_first P l t ns) = update_first P l t ns"
  by (induction ns) (auto split: rnode.splits)

lemma update_first_matches:
  "list_ex (card_matches P l) (update_first P l t ns) = list_ex (card_matches P l) ns"
  by (induction ns) (auto split: rnode.splits)

lemma sample_update_parse:
  \<open>JSON_parse sample_platform ''{"result":{"link":"https://example.org/a","content":"new"}}''
     = Some (JObj [(''result'', JObj [(''link'', JStr ''https://example.org/a''),
                                      (''content'', JStr ''new'')])])\<close>
  by (simp add: sample_platform_def sample_payloads_def)

lemma sample_card_matches:
  "card_matches sample_platform (JStr ''https://example.org/a'') (RCard sample_card)"
  by (simp add: sample_card_def sample_platform_def)

subsection \<open>Progress of fetching\<close>

lemma set_loading_none: "\<not> list_ex is_loading ns \<Longrightarrow> set_loading t ns = ns"
  by (induction ns) auto








subsection \<open>A closed stream\<close>




section \<open>The claims\<close>

text \<open>
  C1. Answer frames that carry the content fragments \<open>f1 .. fn\<close>, processed in arrival
  order on a source that is not closed, leave \<open>currentAnswer\<close> equal to what it was
  followed by \<open>f1 @ ... @ fn\<close>, in every revision. The buffer is empty when the app is
  constructed and is emptied by sending a non-blank message; no listener, no
  \<open>onerror\<close> handler and no timer ever removes text from it, and a frame that is not
  an answer leaves it as it is.
\<close>

theorem answer_buffer_is_concatenation:
  assumes "\<forall>(d, f) \<in> set dfs. carries P d f" "i < length (sources a)" "ready_state i a \<noteq> CLOSED"
  shows "currentAnswer (frames_a P i (answer_frames dfs) a) = currentAnswer a @ concat (map snd dfs)
       \<and> currentAnswer (frames_b P i (answer_frames dfs) a) = currentAnswer a @ concat (map snd dfs)
       \<and> currentAnswer (frames_old P i (answer_frames dfs) a) = currentAnswer a @ concat (map snd dfs)
       \<and> currentAnswer (initial page cards toggle) = []
       \<and> (trim (messageInput a) \<noteq> [] \<longrightarrow>
            currentAnswer (handleSendMessage now a) = [] \<and> currentAnswer (handleSendMessage_old a) = [])
       \<and> (\<exists>s. currentAnswer (state_of (listener_a P j ev a)) = currentAnswer a @ s)
       \<and> (\<exists>s. currentAnswer (state_of (listener_b P j ev a)) = currentAnswer a @ s)
       \<and> (\<exists>s. currentAnswer (state_of (listener_old P j ev a)) = currentAnswer a @ s)
       \<and> (etype ev \<noteq> ''answer'' \<longrightarrow>
            currentAnswer (state_of (listener_a P j ev a)) = currentAnswer a
          \<and> currentAnswer (state_of (listener_b P j ev a)) = currentAnswer a)
       \<and> currentAnswer (state_of (onerror j a)) = currentAnswer a
       \<and> currentAnswer (state_of (onerror_old j a)) = currentAnswer a
       \<and> currentAnswer (runTimer P k a) = currentAnswer a"
  using frames_concat[OF assms] handleSendMessage_resets[of a now]
    listener_a_extends[of P j ev a] listener_b_extends[of P j ev a] listener_old_extends[of P j ev a]
    listener_other[of ev P j a] onerror_buffer[of j a] runTimer_buffer[of P k a]
  by (simp add: initial_def)

theorem answer_buffer_is_concatenation_witness:
  "list_all (\<lambda>(d, f). carries sample_platform d f) sample_fragments
   \<and> 0 < length (sources sample_again) \<and> ready_state 0 sample_again \<noteq> CLOSED
   \<and> trim (messageInput sample_again) \<noteq> []
   \<and> etype (frame ''status'' ''{}'') \<noteq> ''answer''
   \<and> currentAnswer (frames_b sample_platform 0 (answer_frames sample_fragments) sample_again) = ''Hello''
   \<and> currentAnswer (frames_a sample_platform 0 (answer_frames sample_fragments) sample_again) = ''Hello''
   \<and> currentAnswer (handleSendMessage 5 sample_again) = []
   \<and> currentAnswer (state_of (listener_b sample_platform 0 (frame ''status'' ''{}'') sample_again)) = []"
proof -
  have h1: "\<forall>(d, f) \<in> set sample_fragments. carries sample_platform d f"
    by (rule sample_fragments_carry)
  have h2: "0 < length (sources sample_again)"
    by (rule sample_turn_source)
  have h3: "ready_state 0 sample_again \<noteq> CLOSED"
    by (simp add: sample_turn_source)
  have h4: "trim (messageInput sample_again) \<noteq> []"
    by (simp add: sample_again_def trim_sample)
  have h5: "etype (frame ''status'' ''{}'') \<noteq> ''answer''" by (simp add: frame_def)
  have b: "currentAnswer sample_again = []" by (simp add: sample_again_def sample_turn_eq)
  have c: "concat (map snd sample_fragments) = ''Hello''" by (simp add: sample_fragments_def)
  from answer_buffer_is_concatenation[OF h1 h2 h3, of "[]" "[]" True 5 0 "frame ''status'' ''{}''" 0]
  show ?thesis using h1 h2 h3 h4 h5 b c by (simp add: list_all_iff)
qed


text \<open>
  C2, as the code has it. In main.js a \<open>complete\<close> frame with a non-empty payload
  closes the stream it arrived on and changes nothing else; every later frame on that
  stream leaves the whole state unchanged. A status frame with status
  \<open>'completed'\<close> does not close the stream in main.js: the first revision does nothing,
  the second removes the status indicator. In the oldest revision the roles are
  exchanged: the status \<open>'completed'\<close> closes the stream and \<open>complete\<close> has no
  listener.
\<close>

theorem complete_closes_the_stream:
  assumes "i < length (sources a)" "ready_state i a \<noteq> CLOSED" "d \<noteq> []"
    and "c \<noteq> []" "trim c \<noteq> []" "JSON_parse P c = Some (JObj kv)"
    and "map_of kv ''status'' = Some (JStr ''completed'')"
  shows "listener_a P i (frame ''complete'' d) a = Ok (close_source i a)
       \<and> listener_b P i (frame ''complete'' d) a = Ok (close_source i a)
       \<and> ready_state i (close_source i a) = CLOSED
       \<and> listener_a P i ev (close_source i a) = Ok (close_source i a)
       \<and> listener_b P i ev (close_source i a) = Ok (close_source i a)
       \<and> listener_a P i (frame ''status'' c) a = Ok a
       \<and> listener_b P i (frame ''status'' c) a
            = Ok (a\<lparr>answerContent := remove_loading (answerContent a)\<rparr>)
       \<and> listener_old P i (frame ''status'' c) a = Ok (close_source i a)
       \<and> listener_old P i ev (close_source i a) = Ok (close_source i a)
       \<and> listener_old P i (frame ''complete'' d) a = Ok a"
proof -
  have cl: "ready_state i (close_source i a) = CLOSED"
    by (rule close_source_closed(1)[OF assms(1)])
  have old: "listener_old P i (frame ''complete'' d) a = Ok a"
    by (simp add: listener_old_def in_listened frame_def)
  show ?thesis
    using listener_complete[OF assms(1,2,3), of P] cl listener_closed[OF cl, of P ev]
      listener_a_completed[OF assms(1,2,4,5,6,7)] listener_b_completed[OF assms(1,2,4,5,6,7)]
      listener_old_completed[OF assms(1,2,6,7)] old
    by simp
qed

theorem complete_closes_the_stream_witness:
  \<open>0 < length (sources sample_turn) \<and> ready_state 0 sample_turn \<noteq> CLOSED
   \<and> JSON_parse sample_platform ''{"status":"completed"}'' = Some (JObj [(''status'', JStr ''completed'')])
   \<and> listener_b sample_platform 0 (frame ''complete'' ''{}'') sample_turn = Ok (close_source 0 sample_turn)
   \<and> ready_state 0 (close_source 0 sample_turn) = CLOSED
   \<and> listener_b sample_platform 0 (frame ''answer'' ''{"content":"x"}'') (close_source 0 sample_turn)
        = Ok (close_source 0 sample_turn)
   \<and> listener_b sample_platform 0 (frame ''status'' ''{"status":"completed"}'') sample_turn
        = Ok (sample_turn\<lparr>answerContent := [UserMessage ''hello'']\<rparr>)\<close>
proof -
  have h1: "0 < length (sources sample_turn)" by (rule sample_turn_source)
  have h2: "ready_state 0 sample_turn \<noteq> CLOSED" by (simp add: sample_turn_source)
  have h3: "''{}'' \<noteq> []" by simp
  have h4: \<open>''{"status":"completed"}'' \<noteq> []\<close> by simp
  have h7: "map_of [(''status'', JStr ''completed'')] ''status'' = Some (JStr ''completed'')" by simp
  have r: "remove_loading (answerContent sample_turn) = [UserMessage ''hello'']"
    by (simp add: sample_turn_eq)
  from complete_closes_the_stream[OF h1 h2 h3 h4 sample_trim(1) sample_parse(1) h7,
      of \<open>frame ''answer'' ''{"content":"x"}''\<close>]
  show ?thesis using h1 h2 sample_parse(1) r by simp
qed


text \<open>
  C2 as stated fails in main.js: after a status \<open>'completed'\<close> frame, an answer frame
  on the same stream still appends to the answer buffer.
\<close>

theorem completed_status_not_terminal_counterexample:
  \<open>frames_b sample_platform 0
      [frame ''status'' ''{"status":"completed"}'', frame ''answer'' ''{"content":"x"}''] sample_turn
    \<noteq> frames_b sample_platform 0 [frame ''status'' ''{"status":"completed"}''] sample_turn
   \<and> currentAnswer (frames_b sample_platform 0 [frame ''status'' ''{"status":"completed"}''] sample_turn) = []
   \<and> currentAnswer (frames_b sample_platform 0
         [frame ''status'' ''{"status":"completed"}'', frame ''answer'' ''{"content":"x"}''] sample_turn) = ''x''\<close>
proof -
  let ?s1 = "sample_turn\<lparr>answerContent := remove_loading (answerContent sample_turn)\<rparr>"
  have o: "ready_state 0 sample_turn \<noteq> CLOSED" by (simp add: sample_turn_source)
  have c: \<open>listener_b sample_platform 0 (frame ''status'' ''{"status":"completed"}'') sample_turn = Ok ?s1\<close>
    by (rule listener_b_completed[OF sample_turn_source(1) o _ sample_trim(1) sample_parse(1)]) simp_all
  have s: "0 < length (sources ?s1)" "ready_state 0 ?s1 \<noteq> CLOSED" "currentAnswer ?s1 = []"
    by (simp_all add: sample_turn_eq ready_state_def)
  from carries_step[OF carries_x s(1,2)] obtain a' where
    a: \<open>listener_b sample_platform 0 (frame ''answer'' ''{"content":"x"}'') ?s1 = Ok a'\<close>
       "currentAnswer a' = currentAnswer ?s1 @ ''x''" by blast
  have 1: \<open>frames_b sample_platform 0 [frame ''status'' ''{"status":"completed"}''] sample_turn = ?s1\<close>
    using c by simp
  have 2: \<open>frames_b sample_platform 0
      [frame ''status'' ''{"status":"completed"}'', frame ''answer'' ''{"content":"x"}''] sample_turn = a'\<close>
    using c a by simp
  have "currentAnswer a' = ''x''" using a(2) s(3) by simp
  moreover from this s(3) have "a' \<noteq> ?s1" by auto
  ultimately show ?thesis unfolding 1 2 using s(3) by simp
qed











text \<open>
  C6, as the code has it. No \<open>search_result_update\<close> frame changes anything: in the
  first revision of main.js the handler is a no-op, and the second revision has neither
  a listener nor a case for the event. The method \<open>updateSearchResult\<close> of the second
  revision, called with a result whose link is the resolved address of the anchor of
  some card, replaces the content text of the first such card by
  \<open>truncateContent\<close> of the new content; the number and the order of the cards are
  kept, no card is appended, and calling it again with the same result changes
  nothing more.
\<close>

theorem search_result_update_handling:
  assumes "map_of kv ''result'' = Some r" "truthy (Some r)"
    and "field r ''link'' = Some l" "truthy (Some l)"
    and "list_ex (card_matches P l) (referenceCards a)"
    and "truncateContent P (field r ''content'') 300 = Inr t"
  shows "listener_a P i (frame ''search_result_update'' d) a = Ok a
       \<and> listener_b P i (frame ''search_result_update'' d) a = Ok a
       \<and> updateSearchResult_b P (JObj kv) a
            = Ok (a\<lparr>referenceCards := update_first P l t (referenceCards a)\<rparr>)
       \<and> length (update_first P l t (referenceCards a)) = length (referenceCards a)
       \<and> (\<exists>k c. k < length (referenceCards a) \<and> referenceCards a ! k = RCard c
              \<and> card_matches P l (referenceCards a ! k)
              \<and> (\<forall>j < k. \<not> card_matches P l (referenceCards a ! j))
              \<and> update_first P l t (referenceCards a)
                  = (referenceCards a)
                      [k := (if kind c = Legacy then RCard c else RCard (c\<lparr>paper_content := t\<rparr>))])
       \<and> updateSearchResult_b P (JObj kv)
            (a\<lparr>referenceCards := update_first P l t (referenceCards a)\<rparr>)
            = Ok (a\<lparr>referenceCards := update_first P l t (referenceCards a)\<rparr>)"
proof -
  have 1: "updateSearchResult_b P (JObj kv) a
            = Ok (a\<lparr>referenceCards := update_first P l t (referenceCards a)\<rparr>)"
    using assms by (simp add: updateSearchResult_b_def Let_def)
  have 2: "updateSearchResult_b P (JObj kv)
            (a\<lparr>referenceCards := update_first P l t (referenceCards a)\<rparr>)
            = Ok (a\<lparr>referenceCards := update_first P l t (referenceCards a)\<rparr>)"
    using assms by (simp add: updateSearchResult_b_def Let_def update_first_matches update_first_idem)
  show ?thesis
    using 1 2 listener_search_result_update[of P i d a] update_first_at[OF assms(5), of t]
    by simp
qed

theorem search_result_update_handling_witness:
  \<open>map_of [(''result'', JObj [(''link'', JStr ''https://example.org/a''), (''content'', JStr ''new'')])]
       ''result''
     = Some (JObj [(''link'', JStr ''https://example.org/a''), (''content'', JStr ''new'')])
   \<and> list_ex (card_matches sample_platform (JStr ''https://example.org/a'')) (referenceCards sample_cards)
   \<and> truncateContent sample_platform (Some (JStr ''new'')) 300 = Inr (JStr ''new'')
   \<and> referenceCards sample_cards = [RCard sample_card]
   \<and> updateSearchResult_b sample_platform
        (JObj [(''result'', JObj [(''link'', JStr ''https://example.org/a''), (''content'', JStr ''new'')])])
        sample_cards
       = Ok (sample_cards\<lparr>referenceCards := [RCard (sample_card\<lparr>paper_content := JStr ''new''\<rparr>)]\<rparr>)
   \<and> updateSearchResult_b sample_platform
        (JObj [(''result'', JObj [(''link'', JStr ''https://example.org/a''), (''content'', JStr ''new'')])])
        (sample_cards\<lparr>referenceCards := [RCard (sample_card\<lparr>paper_content := JStr ''new''\<rparr>)]\<rparr>)
       = Ok (sample_cards\<lparr>referenceCards := [RCard (sample_card\<lparr>paper_content := JStr ''new''\<rparr>)]\<rparr>)\<close>
proof -
  let ?r = "JObj [(''link'', JStr ''https://example.org/a''), (''content'', JStr ''new'')]"
  have h1: "map_of [(''result'', ?r)] ''result'' = Some ?r" by simp
  have h2: "truthy (Some ?r)" by simp
  have h3: "field ?r ''link'' = Some (JStr ''https://example.org/a'')" by simp
  have h4: "truthy (Some (JStr ''https://example.org/a''))" by simp
  have c: "referenceCards sample_cards = [RCard sample_card]" by (simp add: sample_cards_def)
  have h5: "list_ex (card_matches sample_platform (JStr ''https://example.org/a''))
              (referenceCards sample_cards)"
    using sample_card_matches by (simp add: c)
  have tr: "truncateContent sample_platform (Some (JStr ''new'')) 300 = Inr (JStr ''new'')" by simp
  have h6: "truncateContent sample_platform (field ?r ''content'') 300 = Inr (JStr ''new'')" by simp
  have k: "kind sample_card \<noteq> Legacy" by (simp add: sample_card_def)
  have u: "update_first sample_platform (JStr ''https://example.org/a'') (JStr ''new'') [RCard sample_card]
            = [RCard (sample_card\<lparr>paper_content := JStr ''new''\<rparr>)]"
    using sample_card_matches k by simp
  note t = search_result_update_handling[OF h1 h2 h3 h4 h5 h6, of 0 "[]", unfolded c u]
  show ?thesis
    using h1 h5 tr c t by blast
qed

text \<open>
  C6 as stated fails for the event: a \<open>search_result_update\<close> frame for the address of
  a card that is present leaves the card with its old content, in both revisions of
  main.js.
\<close>

theorem search_result_update_counterexample:
  \<open>JSON_parse sample_platform ''{"result":{"link":"https://example.org/a","content":"new"}}''
     = Some (JObj [(''result'', JObj [(''link'', JStr ''https://example.org/a''),
                                      (''content'', JStr ''new'')])])
   \<and> referenceCards sample_cards = [RCard sample_card]
   \<and> anchor sample_card = Some (Some (JStr ''https://example.org/a''))
   \<and> paper_content sample_card = JStr ''old''
   \<and> listener_a sample_platform 0
        (frame ''search_result_update'' ''{"result":{"link":"https://example.org/a","content":"new"}}'')
        sample_cards = Ok sample_cards
   \<and> listener_b sample_platform 0
        (frame ''search_result_update'' ''{"result":{"link":"https://example.org/a","content":"new"}}'')
        sample_cards = Ok sample_cards\<close>
  using sample_update_parse
  by (simp add: listener_search_result_update) (simp add: sample_cards_def sample_card_def)









text \<open>
  C10. An answer frame whose payload parses to an object without \<open>content\<close> (or with
  the empty string as content) and whose status is not \<open>'error'\<close> leaves
  \<open>currentAnswer\<close> unchanged; when the answer pane holds a loading indicator, the first
  one is removed and a new, empty answer block is appended, and nothing else changes.
  This holds for \<open>updateAnswer\<close> and for the listener of every revision.
\<close>

theorem answer_without_content:
  assumes "d \<noteq> []" "trim d \<noteq> []" "JSON_parse P d = Some (JObj kv)"
    and "map_of kv ''status'' \<noteq> Some (JStr ''error'')"
    and "map_of kv ''content'' = None \<or> map_of kv ''content'' = Some (JStr [])"
    and "i < length (sources a)" "ready_state i a \<noteq> CLOSED"
  shows "(let r = (if list_ex is_loading (answerContent a)
                   then a\<lparr>answerContent := remove_loading (answerContent a) @ [AiMessage []]\<rparr>
                   else a)
          in updateAnswer P (JObj kv) a = Ok r
           \<and> listener_a P i (frame ''answer'' d) a = Ok r
           \<and> listener_b P i (frame ''answer'' d) a = Ok r
           \<and> listener_old P i (frame ''answer'' d) a = Ok r
           \<and> currentAnswer r = currentAnswer a)"
proof -
  let ?r = "if list_ex is_loading (answerContent a)
            then a\<lparr>answerContent := remove_loading (answerContent a) @ [AiMessage []]\<rparr>
            else a"
  have u: "updateAnswer P (JObj kv) a = Ok ?r"
    using assms(5) by (auto simp: updateAnswer_object[OF assms(4)] Let_def)
  show ?thesis
    using u listener_a_answer[OF assms(6,7,1,2,3) u] listener_b_answer[OF assms(6,7,1,2,3) u]
      listener_old_answer[OF assms(6,7,3) u]
    by (simp add: Let_def)
qed

theorem answer_without_content_witness:
  \<open>''{}'' \<noteq> [] \<and> trim ''{}'' \<noteq> [] \<and> JSON_parse sample_platform ''{}'' = Some (JObj [])
   \<and> map_of [] ''status'' \<noteq> Some (JStr ''error'')
   \<and> 0 < length (sources sample_turn) \<and> ready_state 0 sample_turn \<noteq> CLOSED
   \<and> list_ex is_loading (answerContent sample_turn)
   \<and> listener_b sample_platform 0 (frame ''answer'' ''{}'') sample_turn
       = Ok (sample_turn\<lparr>answerContent := [UserMessage ''hello'', AiMessage []]\<rparr>)
   \<and> currentAnswer (sample_turn\<lparr>answerContent := [UserMessage ''hello'', AiMessage []]\<rparr>) = []\<close>
proof -
  have h1: "''{}'' \<noteq> []" by simp
  have h2: "trim ''{}'' \<noteq> []" by (rule trim_sample)
  have h3: "JSON_parse sample_platform ''{}'' = Some (JObj [])"
    by (simp add: sample_platform_def sample_payloads_def)
  have h4: "map_of [] ''status'' \<noteq> Some (JStr ''error'')" by simp
  have h5: "map_of [] ''content'' = None \<or> map_of [] ''content'' = Some (JStr [])" by simp
  have h6: "0 < length (sources sample_turn)" by (rule sample_turn_source)
  have h7: "ready_state 0 sample_turn \<noteq> CLOSED" by (simp add: sample_turn_source)
  have l: "list_ex is_loading (answerContent sample_turn)"
    "remove_loading (answerContent sample_turn) = [UserMessage ''hello'']"
    "currentAnswer sample_turn = []"
    by (simp_all add: sample_turn_eq)
  from answer_without_content[OF h1 h2 h3 h4 h5 h6 h7]
  show ?thesis using h2 h3 h6 h7 l by (simp add: Let_def)
qed


end
